theory Spec2Isabelle
  imports Complex_Main "HOL-Library.Sublist"
begin

section \<open>JavaScript values, errors and the native registry\<close>

text \<open>
  The values that cross the boundary between \<open>ExpoCamera2View\<close> and the native view
  manager: options objects, ratio strings, focus points, node handles and the promises
  the native functions hand back. A promise is represented by its settlement.
\<close>

datatype jsval =
    JUndefined
  | JNull
  | JBool bool
  | JNum real
  | JNaN
  | JStr string
  | JObj "(string \<times> jsval) list"
  | JArr "jsval list"
  | PromiseFulfilled jsval
  | PromiseRejected jsval
  | PromisePending

text \<open>
  What a \<open>throw\<close> can carry: the \<open>UnavailabilityError\<close> built by the decorator from
  a module name and a property name, the engine's \<open>TypeError\<close> for calling something
  that is no function, and whatever a native function throws itself.
\<close>

datatype exn =
    UnavailabilityError string string
  | TypeError string
  | NativeError jsval

text \<open>A call either throws (\<open>Inl\<close>) or returns a value (\<open>Inr\<close>).\<close>

type_synonym completion = "exn + jsval"

text \<open>
  A property of \<open>ExpoCamera2ViewManager\<close> is either plain data or a function of its
  positional arguments. The object itself maps property names to their values.
\<close>

datatype entry =
    Data jsval
  | Callable "jsval list \<Rightarrow> completion"

type_synonym registry = "string \<rightharpoonup> entry"

text \<open>Every native call that was made, in order: the property called and its arguments.\<close>

type_synonym call = "string \<times> jsval list"

text \<open>JavaScript's \<open>ToBoolean\<close>, as used by \<open>if (!x)\<close> and \<open>if (x)\<close>.\<close>

fun truthy :: "jsval \<Rightarrow> bool" where
  "truthy JUndefined = False"
| "truthy JNull = False"
| "truthy (JBool b) = b"
| "truthy (JNum r) = (r \<noteq> 0)"
| "truthy JNaN = False"
| "truthy (JStr s) = (s \<noteq> [])"
| "truthy (JObj kvs) = True"
| "truthy (JArr vs) = True"
| "truthy (PromiseFulfilled v) = True"
| "truthy (PromiseRejected v) = True"
| "truthy PromisePending = True"

fun truthy_entry :: "entry \<Rightarrow> bool" where
  "truthy_entry (Data v) = truthy v"
| "truthy_entry (Callable f) = True"

text \<open>Property read \<open>ExpoCamera2ViewManager[name]\<close>: a missing property reads as undefined.\<close>

definition get_property :: "registry \<Rightarrow> string \<Rightarrow> entry" where
  "get_property reg name = (case reg name of None \<Rightarrow> Data JUndefined | Some e \<Rightarrow> e)"

text \<open>
  Method call \<open>ExpoCamera2ViewManager.name(args)\<close>: a function is called and the call
  recorded; anything else makes the call expression throw a \<open>TypeError\<close>.
\<close>

definition call_manager ::
  "registry \<Rightarrow> string \<Rightarrow> jsval list \<Rightarrow> call list \<Rightarrow> completion \<times> call list" where
  "call_manager reg name args calls =
     (case get_property reg name of
        Callable f \<Rightarrow> (f args, calls @ [(name, args)])
      | Data v \<Rightarrow>
          (Inl (TypeError (''ExpoCamera2ViewManager.'' @ name @ '' is not a function'')),
           calls))"

section \<open>Props and their defaults\<close>

text \<open>
  Modelled from the spec: the enums \<open>Autofocus\<close>, \<open>Facing\<close>, \<open>FlashMode\<close> and
  \<open>WhiteBalance\<close> are declared in \<open>ExpoCamera2.types\<close>, which is not among the sources.
  Each is given the member the component names (off, back, off, auto) and one
  constructor standing for every other member.
\<close>

datatype Autofocus = Autofocus_Off | Autofocus_member string
datatype Facing = Facing_Back | Facing_member string
datatype FlashMode = FlashMode_Off | FlashMode_member string
datatype WhiteBalance = WhiteBalance_Auto | WhiteBalance_member string

text \<open>The two callbacks of the default props are both \<open>() => {}\<close>.\<close>

datatype callback = NoOp | Handler string

text \<open>\<open>ExpoCamera2ViewProps\<close>: every prop is optional; \<open>None\<close> is an unset prop.\<close>

record ExpoCamera2ViewProps =
  autofocus :: "Autofocus option"
  facing :: "Facing option"
  flashMode :: "FlashMode option"
  focusDepth :: "real option"
  whiteBalance :: "WhiteBalance option"
  zoom :: "real option"
  onCameraReady :: "callback option"
  onMountError :: "callback option"

definition defaultProps :: ExpoCamera2ViewProps where
  "defaultProps =
     \<lparr> autofocus = Some Autofocus_Off,
       facing = Some Facing_Back,
       flashMode = Some FlashMode_Off,
       focusDepth = Some 0.0,
       whiteBalance = Some WhiteBalance_Auto,
       zoom = Some 0.0,
       onCameraReady = Some NoOp,
       onMountError = Some NoOp \<rparr>"

definition unsetProps :: ExpoCamera2ViewProps where
  "unsetProps =
     \<lparr> autofocus = None, facing = None, flashMode = None, focusDepth = None,
       whiteBalance = None, zoom = None, onCameraReady = None, onMountError = None \<rparr>"

text \<open>
  How a class component's static \<open>defaultProps\<close> take effect: a prop that is
  undefined on the element gets the default's value.
\<close>

definition or_default :: "'a option \<Rightarrow> 'a option \<Rightarrow> 'a option" where
  "or_default given dflt = (case given of None \<Rightarrow> dflt | Some v \<Rightarrow> Some v)"

definition resolveProps :: "ExpoCamera2ViewProps \<Rightarrow> ExpoCamera2ViewProps" where
  "resolveProps p =
     \<lparr> autofocus = or_default (autofocus p) (autofocus defaultProps),
       facing = or_default (facing p) (facing defaultProps),
       flashMode = or_default (flashMode p) (flashMode defaultProps),
       focusDepth = or_default (focusDepth p) (focusDepth defaultProps),
       whiteBalance = or_default (whiteBalance p) (whiteBalance defaultProps),
       zoom = or_default (zoom p) (zoom defaultProps),
       onCameraReady = or_default (onCameraReady p) (onCameraReady defaultProps),
       onMountError = or_default (onMountError p) (onMountError defaultProps) \<rparr>"

section \<open>The component\<close>

text \<open>
  The instance: its props and the field \<open>cameraNodeHandle?: number\<close>, where \<open>None\<close>
  is undefined. Node handles are integer view tags.
\<close>

record ExpoCamera2View =
  props :: ExpoCamera2ViewProps
  cameraNodeHandle :: "int option"

text \<open>The value of \<open>this.cameraNodeHandle\<close> as an argument of a native call.\<close>

fun handle_arg :: "int option \<Rightarrow> jsval" where
  "handle_arg None = JUndefined"
| "handle_arg (Some n) = JNum (of_int n)"

text \<open>
  Parameter binding of \<open>method.apply(this, args)\<close>: a parameter beyond the arguments
  supplied is undefined, and a default initialiser replaces an undefined parameter.
\<close>

definition param :: "jsval list \<Rightarrow> nat \<Rightarrow> jsval" where
  "param args i = (if i < length args then args ! i else JUndefined)"

definition param_default :: "jsval list \<Rightarrow> nat \<Rightarrow> jsval \<Rightarrow> jsval" where
  "param_default args i d = (case param args i of JUndefined \<Rightarrow> d | v \<Rightarrow> v)"

text \<open>
  A method runs on the instance against the native registry and the record of native
  calls so far; it yields its completion, the instance and the calls afterwards.
\<close>

type_synonym view_method =
  "jsval list \<Rightarrow> ExpoCamera2View \<Rightarrow> registry \<Rightarrow> call list
     \<Rightarrow> completion \<times> ExpoCamera2View \<times> call list"

text \<open>The method bodies as written, before decoration.\<close>

definition forward :: "string \<Rightarrow> jsval list \<Rightarrow> ExpoCamera2View \<Rightarrow> registry \<Rightarrow> call list
    \<Rightarrow> completion \<times> ExpoCamera2View \<times> call list" where
  "forward name nativeArgs this reg calls =
     (case call_manager reg name nativeArgs calls of (r, calls') \<Rightarrow> (r, this, calls'))"

definition pausePreviewAsync_body :: view_method where
  "pausePreviewAsync_body args this reg calls =
     forward ''pausePreviewAsync'' [handle_arg (cameraNodeHandle this)] this reg calls"

definition resumePreviewAsync_body :: view_method where
  "resumePreviewAsync_body args this reg calls =
     forward ''resumePreviewAsync'' [handle_arg (cameraNodeHandle this)] this reg calls"

definition takePictureAsync_body :: view_method where
  "takePictureAsync_body args this reg calls =
     (let options = param_default args 0 (JObj [])
      in forward ''takePictureAsync'' [options, handle_arg (cameraNodeHandle this)]
           this reg calls)"

definition recordAsync_body :: view_method where
  "recordAsync_body args this reg calls =
     (let options = param_default args 0 (JObj [])
      in forward ''recordAsync'' [options, handle_arg (cameraNodeHandle this)]
           this reg calls)"

definition stopRecordingAsync_body :: view_method where
  "stopRecordingAsync_body args this reg calls =
     forward ''stopRecordingAsync'' [handle_arg (cameraNodeHandle this)] this reg calls"

definition getAvailableRatiosAsync_body :: view_method where
  "getAvailableRatiosAsync_body args this reg calls =
     forward ''getAvailableRatiosAsync'' [handle_arg (cameraNodeHandle this)] this reg calls"

definition getAvailablePictureSizesAsync_body :: view_method where
  "getAvailablePictureSizesAsync_body args this reg calls =
     (let ratio = param args 0
      in forward ''getAvailablePictureSizesAsync'' [ratio, handle_arg (cameraNodeHandle this)]
           this reg calls)"

definition focusOnPoint_body :: view_method where
  "focusOnPoint_body args this reg calls =
     (let previewFocusPoint = param args 0
      in forward ''focusOnPoint'' [previewFocusPoint, handle_arg (cameraNodeHandle this)]
           this reg calls)"

text \<open>
  The decorator: the replacement function first reads the registry property of the
  method's own name and throws if it is falsy, and only then applies the method.
\<close>

definition ensureAvailable :: "string \<Rightarrow> view_method \<Rightarrow> view_method" where
  "ensureAvailable propertyName meth args this reg calls =
     (if \<not> truthy_entry (get_property reg propertyName)
      then (Inl (UnavailabilityError ''Camera'' propertyName), this, calls)
      else meth args this reg calls)"

text \<open>The decorated methods of the class.\<close>

definition pausePreviewAsync :: view_method where
  "pausePreviewAsync = ensureAvailable ''pausePreviewAsync'' pausePreviewAsync_body"

definition resumePreviewAsync :: view_method where
  "resumePreviewAsync = ensureAvailable ''resumePreviewAsync'' resumePreviewAsync_body"

definition takePictureAsync :: view_method where
  "takePictureAsync = ensureAvailable ''takePictureAsync'' takePictureAsync_body"

definition recordAsync :: view_method where
  "recordAsync = ensureAvailable ''recordAsync'' recordAsync_body"

definition stopRecordingAsync :: view_method where
  "stopRecordingAsync = ensureAvailable ''stopRecordingAsync'' stopRecordingAsync_body"

definition getAvailableRatiosAsync :: view_method where
  "getAvailableRatiosAsync =
     ensureAvailable ''getAvailableRatiosAsync'' getAvailableRatiosAsync_body"

definition getAvailablePictureSizesAsync :: view_method where
  "getAvailablePictureSizesAsync =
     ensureAvailable ''getAvailablePictureSizesAsync'' getAvailablePictureSizesAsync_body"

definition focusOnPoint :: view_method where
  "focusOnPoint = ensureAvailable ''focusOnPoint'' focusOnPoint_body"

text \<open>
  \<open>setNativeReference\<close>, with the host's \<open>findNodeHandle\<close> as a parameter. A ref is a
  component or null (\<open>None\<close>); \<open>findNodeHandle\<close> yields a number or null (\<open>None\<close>),
  and both null and 0 are falsy.

  The function has no receiver of its own: \<open>this\<close> is the instance when it is called as
  a method on the instance, and undefined (\<open>None\<close>) when the function value is called
  on its own, as class bodies are strict code. An assignment to
  \<open>this.cameraNodeHandle\<close> with \<open>this\<close> undefined throws a \<open>TypeError\<close>. The result is
  either the throw or the receiver as the call leaves it.
\<close>

definition truthy_handle :: "int option \<Rightarrow> bool" where
  "truthy_handle h = (case h of None \<Rightarrow> False | Some n \<Rightarrow> n \<noteq> 0)"

definition assign_cameraNodeHandle ::
  "ExpoCamera2View option \<Rightarrow> int option \<Rightarrow> exn + ExpoCamera2View option" where
  "assign_cameraNodeHandle this h =
     (case this of
        None \<Rightarrow> Inl (TypeError ''Cannot set property cameraNodeHandle of undefined'')
      | Some v \<Rightarrow> Inr (Some (v\<lparr>cameraNodeHandle := h\<rparr>)))"

definition setNativeReference ::
  "('r \<Rightarrow> int option) \<Rightarrow> 'r option \<Rightarrow> ExpoCamera2View option
     \<Rightarrow> exn + ExpoCamera2View option" where
  "setNativeReference findNodeHandle ref this =
     (case ref of
        Some r \<Rightarrow>
          (let h = findNodeHandle r
           in if truthy_handle h then assign_cameraNodeHandle this h else Inr this)
      | None \<Rightarrow> assign_cameraNodeHandle this None)"

text \<open>
  The instance \<open>v\<close> after such a call: the updated receiver when the call ran on the
  instance and returned, and \<open>v\<close> as it was when the call threw or had no receiver.
\<close>

definition instance_after ::
  "exn + ExpoCamera2View option \<Rightarrow> ExpoCamera2View \<Rightarrow> ExpoCamera2View" where
  "instance_after res v = (case res of Inr (Some v') \<Rightarrow> v' | Inr None \<Rightarrow> v | Inl e \<Rightarrow> v)"

text \<open>
  \<open>render\<close> spreads the props onto the native view and changes nothing. The ref it
  hands to the host is the function value \<open>this.setNativeReference\<close>, read off the
  instance without binding it, so the host's call of the ref runs it with \<open>this\<close>
  undefined.
\<close>

record 'r element =
  element_props :: ExpoCamera2ViewProps
  element_ref :: "'r option \<Rightarrow> exn + ExpoCamera2View option"

definition render ::
  "('r \<Rightarrow> int option) \<Rightarrow> ExpoCamera2View \<Rightarrow> 'r element \<times> ExpoCamera2View" where
  "render findNodeHandle this =
     (\<lparr> element_props = props this,
        element_ref = (\<lambda>ref. setNativeReference findNodeHandle ref None) \<rparr>,
      this)"

section \<open>Commands by name\<close>

datatype command =
    PausePreviewAsync
  | ResumePreviewAsync
  | TakePictureAsync
  | RecordAsync
  | StopRecordingAsync
  | GetAvailableRatiosAsync
  | GetAvailablePictureSizesAsync
  | FocusOnPoint

fun command_name :: "command \<Rightarrow> string" where
  "command_name PausePreviewAsync = ''pausePreviewAsync''"
| "command_name ResumePreviewAsync = ''resumePreviewAsync''"
| "command_name TakePictureAsync = ''takePictureAsync''"
| "command_name RecordAsync = ''recordAsync''"
| "command_name StopRecordingAsync = ''stopRecordingAsync''"
| "command_name GetAvailableRatiosAsync = ''getAvailableRatiosAsync''"
| "command_name GetAvailablePictureSizesAsync = ''getAvailablePictureSizesAsync''"
| "command_name FocusOnPoint = ''focusOnPoint''"

text \<open>Calling the method of that name on the instance.\<close>

fun invoke :: "command \<Rightarrow> view_method" where
  "invoke PausePreviewAsync = pausePreviewAsync"
| "invoke ResumePreviewAsync = resumePreviewAsync"
| "invoke TakePictureAsync = takePictureAsync"
| "invoke RecordAsync = recordAsync"
| "invoke StopRecordingAsync = stopRecordingAsync"
| "invoke GetAvailableRatiosAsync = getAvailableRatiosAsync"
| "invoke GetAvailablePictureSizesAsync = getAvailablePictureSizesAsync"
| "invoke FocusOnPoint = focusOnPoint"

section \<open>Argument shapes and actions\<close>

text \<open>
  The argument lists the TypeScript signatures admit: none for the commands without
  parameter, an optional options value for \<open>takePictureAsync\<close> and \<open>recordAsync\<close>,
  exactly one value for \<open>getAvailablePictureSizesAsync\<close> and \<open>focusOnPoint\<close>.
\<close>

fun well_typed_args :: "command \<Rightarrow> jsval list \<Rightarrow> bool" where
  "well_typed_args PausePreviewAsync args = (args = [])"
| "well_typed_args ResumePreviewAsync args = (args = [])"
| "well_typed_args TakePictureAsync args = (length args \<le> 1)"
| "well_typed_args RecordAsync args = (length args \<le> 1)"
| "well_typed_args StopRecordingAsync args = (args = [])"
| "well_typed_args GetAvailableRatiosAsync args = (args = [])"
| "well_typed_args GetAvailablePictureSizesAsync args = (length args = 1)"
| "well_typed_args FocusOnPoint args = (length args = 1)"

text \<open>
  The given arguments, with an options argument that was left out or is undefined
  replaced by the empty object.
\<close>

definition takes_options :: "command \<Rightarrow> bool" where
  "takes_options c = (c = TakePictureAsync \<or> c = RecordAsync)"

definition effective_args :: "command \<Rightarrow> jsval list \<Rightarrow> jsval list" where
  "effective_args c args =
     (if takes_options c \<and> (args = [] \<or> args = [JUndefined]) then [JObj []] else args)"

text \<open>A call that ends in a throw or hands back a rejected promise.\<close>

fun fails_or_rejected :: "completion \<Rightarrow> bool" where
  "fails_or_rejected (Inl e) = True"
| "fails_or_rejected (Inr (PromiseRejected v)) = True"
| "fails_or_rejected (Inr v) = False"

text \<open>
  What can happen to an instance: a command, \<open>setNativeReference\<close> called as a method
  on the instance, the host calling the ref of the rendered element, a render.
\<close>

datatype 'r action =
    Command command "jsval list"
  | SetNativeReference "'r option"
  | RefCallback "'r option"
  | Render

definition perform ::
  "('r \<Rightarrow> int option) \<Rightarrow> registry \<Rightarrow> 'r action \<Rightarrow> ExpoCamera2View \<times> call list
     \<Rightarrow> ExpoCamera2View \<times> call list" where
  "perform findNodeHandle reg a st =
     (case st of (this, calls) \<Rightarrow>
        (case a of
           Command c args \<Rightarrow>
             (case invoke c args this reg calls of (r, this', calls') \<Rightarrow> (this', calls'))
         | SetNativeReference ref \<Rightarrow>
             (instance_after (setNativeReference findNodeHandle ref (Some this)) this, calls)
         | RefCallback ref \<Rightarrow>
             (instance_after (element_ref (fst (render findNodeHandle this)) ref) this, calls)
         | Render \<Rightarrow> (snd (render findNodeHandle this), calls)))"

text \<open>
  Modelled from the spec: the class \<open>UnavailabilityError\<close> is imported from a module
  that is not among the sources, so the text of its message is not known. The spec
  says that the error names the subsystem and the missing capability; the message is
  taken to be the two names joined by a dot.
\<close>

definition UnavailabilityError_message :: "string \<Rightarrow> string \<Rightarrow> string" where
  "UnavailabilityError_message moduleName propertyName = moduleName @ ''.'' @ propertyName"

section \<open>Scenarios\<close>

definition picture_x :: jsval where
  "picture_x = JObj [(''uri'', JStr ''file://x.jpg'')]"

definition native_takePicture :: "jsval list \<Rightarrow> completion" where
  "native_takePicture nativeArgs = Inr (PromiseFulfilled picture_x)"

definition native_echo :: "jsval list \<Rightarrow> completion" where
  "native_echo nativeArgs = Inr (PromiseFulfilled (JArr nativeArgs))"

definition native_failing :: "jsval list \<Rightarrow> completion" where
  "native_failing nativeArgs = Inl (NativeError (JStr ''E_CAMERA_UNAVAILABLE''))"

definition sample_registry :: registry where
  "sample_registry =
     [''takePictureAsync'' \<mapsto> Callable native_takePicture,
      ''recordAsync'' \<mapsto> Callable native_echo,
      ''stopRecordingAsync'' \<mapsto> Callable native_failing,
      ''getAvailablePictureSizesAsync'' \<mapsto> Callable native_echo,
      ''pausePreviewAsync'' \<mapsto> Data (JNum 0),
      ''resumePreviewAsync'' \<mapsto> Data JNull]"

text \<open>A registry whose \<open>resumePreviewAsync\<close> is truthy and yet no function.\<close>

definition miswired_registry :: registry where
  "miswired_registry = [''resumePreviewAsync'' \<mapsto> Data (JStr ''resume'')]"

definition mounted_view :: ExpoCamera2View where
  "mounted_view = \<lparr>props = resolveProps unsetProps, cameraNodeHandle = Some 7\<rparr>"

text \<open>A host in which only the component called camera resolves to a node.\<close>

definition sample_findNodeHandle :: "string \<Rightarrow> int option" where
  "sample_findNodeHandle r = (if r = ''camera'' then Some 7 else None)"

lemmas bodies_defs =
  pausePreviewAsync_body_def resumePreviewAsync_body_def takePictureAsync_body_def
  recordAsync_body_def stopRecordingAsync_body_def getAvailableRatiosAsync_body_def
  getAvailablePictureSizesAsync_body_def focusOnPoint_body_def

lemmas methods_defs =
  pausePreviewAsync_def resumePreviewAsync_def takePictureAsync_def recordAsync_def
  stopRecordingAsync_def getAvailableRatiosAsync_def getAvailablePictureSizesAsync_def
  focusOnPoint_def

section \<open>Shared facts about the methods\<close>

lemma invoke_falsy:
  assumes "\<not> truthy_entry (get_property reg (command_name c))"
  shows "invoke c args this reg calls =
           (Inl (UnavailabilityError ''Camera'' (command_name c)), this, calls)"
  using assms by (cases c) (simp_all add: methods_defs ensureAvailable_def)

lemma forward_callable:
  assumes "get_property reg name = Callable f"
  shows "forward name nativeArgs this reg calls =
           (f nativeArgs, this, calls @ [(name, nativeArgs)])"
  using assms by (simp add: forward_def call_manager_def)

lemma invoke_callable:
  assumes "get_property reg (command_name c) = Callable f"
  shows "invoke c args this reg calls =
           (let h = handle_arg (cameraNodeHandle this) in
            forward (command_name c)
              (case c of
                 PausePreviewAsync \<Rightarrow> [h]
               | ResumePreviewAsync \<Rightarrow> [h]
               | TakePictureAsync \<Rightarrow> [param_default args 0 (JObj []), h]
               | RecordAsync \<Rightarrow> [param_default args 0 (JObj []), h]
               | StopRecordingAsync \<Rightarrow> [h]
               | GetAvailableRatiosAsync \<Rightarrow> [h]
               | GetAvailablePictureSizesAsync \<Rightarrow> [param args 0, h]
               | FocusOnPoint \<Rightarrow> [param args 0, h]) this reg calls)"
  using assms by (cases c) (simp_all add: methods_defs bodies_defs ensureAvailable_def)

lemma invoke_callable_handle:
  assumes "get_property reg (command_name c) = Callable f"
  shows "\<exists>given. invoke c args this reg calls =
           (f (given @ [handle_arg (cameraNodeHandle this)]), this,
            calls @ [(command_name c, given @ [handle_arg (cameraNodeHandle this)])])"
proof -
  let ?h = "handle_arg (cameraNodeHandle this)"
  have shape: "\<exists>given.
      (case c of
         PausePreviewAsync \<Rightarrow> [?h]
       | ResumePreviewAsync \<Rightarrow> [?h]
       | TakePictureAsync \<Rightarrow> [param_default args 0 (JObj []), ?h]
       | RecordAsync \<Rightarrow> [param_default args 0 (JObj []), ?h]
       | StopRecordingAsync \<Rightarrow> [?h]
       | GetAvailableRatiosAsync \<Rightarrow> [?h]
       | GetAvailablePictureSizesAsync \<Rightarrow> [param args 0, ?h]
       | FocusOnPoint \<Rightarrow> [param args 0, ?h]) = given @ [?h]"
    by (cases c) simp_all
  then obtain given where
    "(case c of
         PausePreviewAsync \<Rightarrow> [?h]
       | ResumePreviewAsync \<Rightarrow> [?h]
       | TakePictureAsync \<Rightarrow> [param_default args 0 (JObj []), ?h]
       | RecordAsync \<Rightarrow> [param_default args 0 (JObj []), ?h]
       | StopRecordingAsync \<Rightarrow> [?h]
       | GetAvailableRatiosAsync \<Rightarrow> [?h]
       | GetAvailablePictureSizesAsync \<Rightarrow> [param args 0, ?h]
       | FocusOnPoint \<Rightarrow> [param args 0, ?h]) = given @ [?h]" ..
  then have "invoke c args this reg calls =
      (f (given @ [?h]), this, calls @ [(command_name c, given @ [?h])])"
    using invoke_callable [OF assms, of args this calls] forward_callable [OF assms]
    by (simp add: Let_def)
  then show ?thesis ..
qed

lemma options_param:
  assumes "length args \<le> 1"
  shows "[param_default args 0 (JObj [])] =
           (if args = [] \<or> args = [JUndefined] then [JObj []] else args)"
proof (cases args)
  case Nil
  then show ?thesis by (simp add: param_default_def param_def)
next
  case (Cons a rest)
  with assms have "rest = []" by simp
  with Cons show ?thesis
    by (cases a) (simp_all add: param_default_def param_def)
qed

lemma single_param:
  assumes "length args = 1"
  shows "[param args 0] = args"
  using assms by (cases args) (simp_all add: param_def)

lemma invoke_forwards:
  assumes "get_property reg (command_name c) = Callable f"
    and "well_typed_args c args"
  shows "invoke c args this reg calls =
           (f (effective_args c args @ [handle_arg (cameraNodeHandle this)]), this,
            calls @ [(command_name c, effective_args c args @ [handle_arg (cameraNodeHandle this)])])"
proof -
  let ?h = "handle_arg (cameraNodeHandle this)"
  have eff: "(case c of
                PausePreviewAsync \<Rightarrow> [?h]
              | ResumePreviewAsync \<Rightarrow> [?h]
              | TakePictureAsync \<Rightarrow> [param_default args 0 (JObj []), ?h]
              | RecordAsync \<Rightarrow> [param_default args 0 (JObj []), ?h]
              | StopRecordingAsync \<Rightarrow> [?h]
              | GetAvailableRatiosAsync \<Rightarrow> [?h]
              | GetAvailablePictureSizesAsync \<Rightarrow> [param args 0, ?h]
              | FocusOnPoint \<Rightarrow> [param args 0, ?h]) = effective_args c args @ [?h]"
    using assms(2) options_param [of args] single_param [of args]
    by (cases c) (simp_all add: effective_args_def takes_options_def)
  have "invoke c args this reg calls =
          forward (command_name c)
            (case c of
                PausePreviewAsync \<Rightarrow> [?h]
              | ResumePreviewAsync \<Rightarrow> [?h]
              | TakePictureAsync \<Rightarrow> [param_default args 0 (JObj []), ?h]
              | RecordAsync \<Rightarrow> [param_default args 0 (JObj []), ?h]
              | StopRecordingAsync \<Rightarrow> [?h]
              | GetAvailableRatiosAsync \<Rightarrow> [?h]
              | GetAvailablePictureSizesAsync \<Rightarrow> [param args 0, ?h]
              | FocusOnPoint \<Rightarrow> [param args 0, ?h]) this reg calls"
    using assms(1) by (cases c) (simp_all add: methods_defs bodies_defs ensureAvailable_def)
  then show ?thesis
    by (simp only: eff forward_callable [OF assms(1)])
qed

lemma invoke_keeps_this: "fst (snd (invoke c args this reg calls)) = this"
  by (cases c)
     (simp_all add: methods_defs bodies_defs ensureAvailable_def forward_def Let_def
        split: prod.splits)

lemma unmount_clears:
  "setNativeReference findNodeHandle None (Some this) =
     Inr (Some (this\<lparr>cameraNodeHandle := None\<rparr>))"
  by (simp add: setNativeReference_def assign_cameraNodeHandle_def)

lemma unbound_null_throws:
  "setNativeReference findNodeHandle None None =
     Inl (TypeError ''Cannot set property cameraNodeHandle of undefined'')"
  by (simp add: setNativeReference_def assign_cameraNodeHandle_def)

lemma unbound_leaves_instance:
  "instance_after (setNativeReference findNodeHandle ref None) this = this"
  by (cases ref)
     (simp_all add: setNativeReference_def assign_cameraNodeHandle_def instance_after_def Let_def)

lemma invoke_not_a_function:
  assumes "get_property reg (command_name c) = Data d" and "truthy d"
  shows "invoke c args this reg calls =
           (Inl (TypeError (''ExpoCamera2ViewManager.'' @ command_name c @ '' is not a function'')),
            this, calls)"
  using assms
  by (cases c)
     (simp_all add: methods_defs bodies_defs ensureAvailable_def forward_def call_manager_def
        Let_def)

lemma falsy_resolution_keeps:
  assumes "\<not> truthy_handle (findNodeHandle r)"
  shows "setNativeReference findNodeHandle (Some r) receiver = Inr receiver"
  using assms by (simp add: setNativeReference_def Let_def)

lemma take_no_options:
  assumes "get_property reg ''takePictureAsync'' = Callable f"
  shows "takePictureAsync [] this reg calls =
           (f [JObj [], handle_arg (cameraNodeHandle this)], this,
            calls @ [(''takePictureAsync'', [JObj [], handle_arg (cameraNodeHandle this)])])"
  using assms
  by (simp add: takePictureAsync_def takePictureAsync_body_def ensureAvailable_def
      forward_callable param_default_def param_def Let_def)

lemma record_no_options:
  assumes "get_property reg ''recordAsync'' = Callable g"
  shows "recordAsync [] this reg calls =
           (g [JObj [], handle_arg (cameraNodeHandle this)], this,
            calls @ [(''recordAsync'', [JObj [], handle_arg (cameraNodeHandle this)])])"
  using assms
  by (simp add: recordAsync_def recordAsync_body_def ensureAvailable_def
      forward_callable param_default_def param_def Let_def)

lemma sample_get [simp]:
  "get_property sample_registry ''takePictureAsync'' = Callable native_takePicture"
  "get_property sample_registry ''recordAsync'' = Callable native_echo"
  "get_property sample_registry ''stopRecordingAsync'' = Callable native_failing"
  "get_property sample_registry ''getAvailablePictureSizesAsync'' = Callable native_echo"
  "get_property sample_registry ''pausePreviewAsync'' = Data (JNum 0)"
  "get_property sample_registry ''resumePreviewAsync'' = Data JNull"
  "get_property sample_registry ''getAvailableRatiosAsync'' = Data JUndefined"
  "get_property sample_registry ''focusOnPoint'' = Data JUndefined"
  by (simp_all add: get_property_def sample_registry_def)

section \<open>The availability gate\<close>

text \<open>
  C1. For each of the eight commands: when the registry has no property of the
  command's name, the call throws \<open>UnavailabilityError('Camera', name)\<close> as its own
  completion (a throw, not a returned promise), and the record of native calls is
  what it was, so no registry function has run.
\<close>

theorem unavailable_when_absent:
  assumes "reg (command_name c) = None"
  shows "invoke c args this reg calls =
           (Inl (UnavailabilityError ''Camera'' (command_name c)), this, calls)"
proof -
  from assms have "get_property reg (command_name c) = Data JUndefined"
    by (simp add: get_property_def)
  then have "\<not> truthy_entry (get_property reg (command_name c))"
    by simp
  then show ?thesis
    by (rule invoke_falsy)
qed

theorem unavailable_when_absent_witness:
  "sample_registry (command_name FocusOnPoint) = None \<and>
   invoke FocusOnPoint [JObj [(''x'', JNum 0.5), (''y'', JNum 0.5)]]
       mounted_view sample_registry [(''recordAsync'', [JObj [], JNum 7])] =
     (Inl (UnavailabilityError ''Camera'' ''focusOnPoint''),
      mounted_view, [(''recordAsync'', [JObj [], JNum 7])])"
proof -
  have absent: "sample_registry (command_name FocusOnPoint) = None"
    by (simp add: sample_registry_def)
  from absent show ?thesis
    using unavailable_when_absent
      [of sample_registry FocusOnPoint "[JObj [(''x'', JNum 0.5), (''y'', JNum 0.5)]]"
          mounted_view "[(''recordAsync'', [JObj [], JNum 7])]"]
    by simp
qed

text \<open>
  C8. The gate tests truthiness: for each command, when the registry property of its
  name reads as undefined, null, 0, false or the empty string, whether the property is
  missing or present with that value, the call throws \<open>UnavailabilityError\<close> and
  no native call is made.
\<close>

theorem gate_tests_truthiness:
  assumes "get_property reg (command_name c) = Data v"
    and "v \<in> {JUndefined, JNull, JNum 0, JBool False, JStr ''''}"
  shows "invoke c args this reg calls =
           (Inl (UnavailabilityError ''Camera'' (command_name c)), this, calls)"
proof -
  from assms(2) have "\<not> truthy v" by auto
  with assms(1) have "\<not> truthy_entry (get_property reg (command_name c))" by simp
  then show ?thesis by (rule invoke_falsy)
qed

theorem gate_tests_truthiness_witness:
  "sample_registry (command_name PausePreviewAsync) = Some (Data (JNum 0)) \<and>
   get_property sample_registry (command_name PausePreviewAsync) = Data (JNum 0) \<and>
   JNum 0 \<in> {JUndefined, JNull, JNum 0, JBool False, JStr ''''} \<and>
   invoke PausePreviewAsync [] mounted_view sample_registry [] =
     (Inl (UnavailabilityError ''Camera'' ''pausePreviewAsync''), mounted_view, [])"
proof -
  have present: "sample_registry (command_name PausePreviewAsync) = Some (Data (JNum 0))"
    by (simp add: sample_registry_def)
  have h: "get_property sample_registry (command_name PausePreviewAsync) = Data (JNum 0)"
    by simp
  have m: "JNum 0 \<in> {JUndefined, JNull, JNum 0, JBool False, JStr ''''}"
    by simp
  from gate_tests_truthiness [OF h m, of "[]" mounted_view "[]"] present h m
  show ?thesis by simp
qed

text \<open>
  C5. When the registry property \<open>getAvailableRatiosAsync\<close> is undefined, calling
  \<open>getAvailableRatiosAsync\<close> throws \<open>UnavailabilityError('Camera',
  'getAvailableRatiosAsync')\<close>, and the message of that error includes both
  \<open>Camera\<close> and \<open>getAvailableRatiosAsync\<close>.
\<close>

theorem ratios_unavailable_message:
  assumes "get_property reg ''getAvailableRatiosAsync'' = Data JUndefined"
  shows "getAvailableRatiosAsync args this reg calls =
           (Inl (UnavailabilityError ''Camera'' ''getAvailableRatiosAsync''), this, calls) \<and>
         sublist ''Camera''
           (UnavailabilityError_message ''Camera'' ''getAvailableRatiosAsync'') \<and>
         sublist ''getAvailableRatiosAsync''
           (UnavailabilityError_message ''Camera'' ''getAvailableRatiosAsync'')"
proof -
  have "getAvailableRatiosAsync args this reg calls =
           (Inl (UnavailabilityError ''Camera'' ''getAvailableRatiosAsync''), this, calls)"
    using assms invoke_falsy [of reg GetAvailableRatiosAsync args this calls] by simp
  moreover have "sublist ''Camera''
      (UnavailabilityError_message ''Camera'' ''getAvailableRatiosAsync'')"
    unfolding UnavailabilityError_message_def by (rule sublist_append_rightI)
  moreover have "sublist ''getAvailableRatiosAsync''
      (UnavailabilityError_message ''Camera'' ''getAvailableRatiosAsync'')"
    unfolding UnavailabilityError_message_def
    using sublist_appendI [of "''getAvailableRatiosAsync''" "''Camera'' @ ''.''" "[]"]
    by simp
  ultimately show ?thesis by blast
qed

theorem ratios_unavailable_message_witness:
  "get_property sample_registry ''getAvailableRatiosAsync'' = Data JUndefined \<and>
   getAvailableRatiosAsync [] mounted_view sample_registry [] =
     (Inl (UnavailabilityError ''Camera'' ''getAvailableRatiosAsync''), mounted_view, []) \<and>
   UnavailabilityError_message ''Camera'' ''getAvailableRatiosAsync'' =
     ''Camera.getAvailableRatiosAsync''"
proof -
  have h: "get_property sample_registry ''getAvailableRatiosAsync'' = Data JUndefined"
    by simp
  from ratios_unavailable_message [OF h, of "[]" mounted_view "[]"] h
  show ?thesis by (simp add: UnavailabilityError_message_def)
qed

section \<open>Forwarding to the registry\<close>

text \<open>
  C2, as stated, fails: \<open>recordAsync()\<close> is given no argument, yet the registry
  function does not receive the handle alone. The default initialiser of the options
  parameter puts the empty object in front of it.
\<close>

theorem forwards_given_args_counterexample:
  "invoke RecordAsync [] mounted_view sample_registry [] \<noteq>
     (native_echo ([] @ [handle_arg (cameraNodeHandle mounted_view)]), mounted_view,
      [] @ [(''recordAsync'', [] @ [handle_arg (cameraNodeHandle mounted_view)])])"
  by (simp add: record_no_options native_echo_def mounted_view_def)

text \<open>
  C2, amended. For each command whose registry property is a function, called with
  arguments its signature admits: that function is called once, with the given
  arguments followed by the current handle, where an options argument of
  \<open>takePictureAsync\<close> or \<open>recordAsync\<close> that is left out or undefined is replaced by
  the empty object. The completion of that call, be it a value or a throw, is the
  completion of the command, and the instance is as before.
\<close>

theorem forwards_effective_args:
  assumes "get_property reg (command_name c) = Callable f"
    and "well_typed_args c args"
  shows "invoke c args this reg calls =
           (f (effective_args c args @ [handle_arg (cameraNodeHandle this)]), this,
            calls @ [(command_name c,
                      effective_args c args @ [handle_arg (cameraNodeHandle this)])])"
  using assms by (rule invoke_forwards)

theorem forwards_effective_args_witness:
  "get_property sample_registry (command_name StopRecordingAsync) = Callable native_failing \<and>
   well_typed_args StopRecordingAsync [] \<and>
   invoke StopRecordingAsync [] mounted_view sample_registry [] =
     (Inl (NativeError (JStr ''E_CAMERA_UNAVAILABLE'')), mounted_view,
      [(''stopRecordingAsync'', [JNum 7])]) \<and>
   get_property sample_registry (command_name RecordAsync) = Callable native_echo \<and>
   well_typed_args RecordAsync [JObj [(''mute'', JBool True)]] \<and>
   invoke RecordAsync [JObj [(''mute'', JBool True)]] mounted_view sample_registry [] =
     (Inr (PromiseFulfilled (JArr [JObj [(''mute'', JBool True)], JNum 7])), mounted_view,
      [(''recordAsync'', [JObj [(''mute'', JBool True)], JNum 7])])"
proof -
  have s1: "get_property sample_registry (command_name StopRecordingAsync) = Callable native_failing"
    and s2: "well_typed_args StopRecordingAsync []"
    and r1: "get_property sample_registry (command_name RecordAsync) = Callable native_echo"
    and r2: "well_typed_args RecordAsync [JObj [(''mute'', JBool True)]]"
    by simp_all
  show ?thesis
    using s1 s2 r1 r2
      forwards_effective_args [OF s1 s2, of mounted_view "[]"]
      forwards_effective_args [OF r1 r2, of mounted_view "[]"]
    by (simp add: effective_args_def takes_options_def native_failing_def native_echo_def
        mounted_view_def)
qed

text \<open>
  C10. Called with no argument, \<open>takePictureAsync\<close> and \<open>recordAsync\<close> pass the
  empty object as options, followed by the handle, to their registry functions.
\<close>

theorem options_default_to_empty_object:
  "(get_property reg ''takePictureAsync'' = Callable f \<longrightarrow>
      takePictureAsync [] this reg calls =
        (f [JObj [], handle_arg (cameraNodeHandle this)], this,
         calls @ [(''takePictureAsync'', [JObj [], handle_arg (cameraNodeHandle this)])])) \<and>
   (get_property reg ''recordAsync'' = Callable g \<longrightarrow>
      recordAsync [] this reg calls =
        (g [JObj [], handle_arg (cameraNodeHandle this)], this,
         calls @ [(''recordAsync'', [JObj [], handle_arg (cameraNodeHandle this)])]))"
  using take_no_options [of reg f this calls] record_no_options [of reg g this calls]
  by blast

theorem options_default_to_empty_object_witness:
  "get_property sample_registry ''takePictureAsync'' = Callable native_takePicture \<and>
   takePictureAsync [] mounted_view sample_registry [] =
     (Inr (PromiseFulfilled picture_x), mounted_view,
      [(''takePictureAsync'', [JObj [], JNum 7])]) \<and>
   get_property sample_registry ''recordAsync'' = Callable native_echo \<and>
   recordAsync [] mounted_view sample_registry [] =
     (Inr (PromiseFulfilled (JArr [JObj [], JNum 7])), mounted_view,
      [(''recordAsync'', [JObj [], JNum 7])])"
proof -
  have t: "get_property sample_registry ''takePictureAsync'' = Callable native_takePicture"
    and r: "get_property sample_registry ''recordAsync'' = Callable native_echo"
    by simp_all
  from options_default_to_empty_object [where reg = sample_registry
      and f = native_takePicture and g = native_echo and this = mounted_view and calls = "[]"] t r
  show ?thesis
    by (simp add: native_takePicture_def native_echo_def mounted_view_def)
qed

text \<open>
  C6. When the registry property \<open>takePictureAsync\<close> is a function returning a
  promise fulfilled with \<open>{uri: "file://x.jpg"}\<close>, \<open>takePictureAsync\<close> returns
  exactly that.
\<close>

theorem takePicture_passes_result:
  assumes "get_property reg ''takePictureAsync'' = Callable f"
    and "\<forall>nativeArgs. f nativeArgs =
           Inr (PromiseFulfilled (JObj [(''uri'', JStr ''file://x.jpg'')]))"
  shows "fst (takePictureAsync args this reg calls) =
           Inr (PromiseFulfilled (JObj [(''uri'', JStr ''file://x.jpg'')]))"
  using assms invoke_callable_handle [OF assms(1) [folded command_name.simps(3)], of args this calls]
  by auto

theorem takePicture_passes_result_witness:
  "get_property sample_registry ''takePictureAsync'' = Callable native_takePicture \<and>
   (\<forall>nativeArgs. native_takePicture nativeArgs =
      Inr (PromiseFulfilled (JObj [(''uri'', JStr ''file://x.jpg'')]))) \<and>
   fst (takePictureAsync [JObj [(''quality'', JNum 1)]] mounted_view sample_registry []) =
     Inr (PromiseFulfilled (JObj [(''uri'', JStr ''file://x.jpg'')]))"
proof -
  have h: "get_property sample_registry ''takePictureAsync'' = Callable native_takePicture"
    by simp
  have r: "\<forall>nativeArgs. native_takePicture nativeArgs =
      Inr (PromiseFulfilled (JObj [(''uri'', JStr ''file://x.jpg'')]))"
    by (simp add: native_takePicture_def picture_x_def)
  from takePicture_passes_result [OF h r, of "[JObj [(''quality'', JNum 1)]]" mounted_view "[]"] h r
  show ?thesis by simp
qed

section \<open>The handle\<close>

text \<open>
  C3, as stated, fails: on a mounted view, after \<open>setNativeReference(null)\<close>, be it
  called as a method on the instance or by the host through the rendered ref,
  \<open>takePictureAsync()\<close> against a registry whose function resolves neither throws
  nor returns a rejected promise.
\<close>

theorem after_unmount_counterexample:
  "\<not> fails_or_rejected
       (fst (invoke TakePictureAsync []
               (fst (perform sample_findNodeHandle sample_registry
                       (SetNativeReference None) (mounted_view, [])))
               sample_registry [])) \<and>
   \<not> fails_or_rejected
       (fst (invoke TakePictureAsync []
               (fst (perform sample_findNodeHandle sample_registry
                       (RefCallback None) (mounted_view, [])))
               sample_registry []))"
  by (simp add: take_no_options native_takePicture_def)

text \<open>
  C3, amended. Called with null as a method on the instance, \<open>setNativeReference\<close>
  returns and leaves \<open>cameraNodeHandle\<close> undefined. A command called on an instance
  whose \<open>cameraNodeHandle\<close> is undefined throws \<open>UnavailabilityError\<close> when its
  registry property is falsy, and throws the \<open>TypeError\<close> of calling what is no
  function, with no native call made, when the property is truthy data. When the
  property is a function, that function is called once with undefined in the handle
  position, and its completion, whatever it is, is the command's. In each case the
  instance is as before.
\<close>

theorem after_unmount_undefined_handle:
  "setNativeReference findNodeHandle None (Some this) =
     Inr (Some (this\<lparr>cameraNodeHandle := None\<rparr>)) \<and>
   cameraNodeHandle (this\<lparr>cameraNodeHandle := None\<rparr>) = None \<and>
   (\<not> truthy_entry (get_property reg (command_name c)) \<longrightarrow>
      invoke c args (this\<lparr>cameraNodeHandle := None\<rparr>) reg calls =
        (Inl (UnavailabilityError ''Camera'' (command_name c)),
         this\<lparr>cameraNodeHandle := None\<rparr>, calls)) \<and>
   (get_property reg (command_name c) = Data d \<and> truthy d \<longrightarrow>
      invoke c args (this\<lparr>cameraNodeHandle := None\<rparr>) reg calls =
        (Inl (TypeError (''ExpoCamera2ViewManager.'' @ command_name c @ '' is not a function'')),
         this\<lparr>cameraNodeHandle := None\<rparr>, calls)) \<and>
   (get_property reg (command_name c) = Callable f \<longrightarrow>
      (\<exists>given. invoke c args (this\<lparr>cameraNodeHandle := None\<rparr>) reg calls =
         (f (given @ [JUndefined]), this\<lparr>cameraNodeHandle := None\<rparr>,
          calls @ [(command_name c, given @ [JUndefined])])))"
proof (intro conjI impI)
  show "setNativeReference findNodeHandle None (Some this) =
     Inr (Some (this\<lparr>cameraNodeHandle := None\<rparr>))"
    by (rule unmount_clears)
next
  show "cameraNodeHandle (this\<lparr>cameraNodeHandle := None\<rparr>) = None"
    by simp
next
  assume "\<not> truthy_entry (get_property reg (command_name c))"
  then show "invoke c args (this\<lparr>cameraNodeHandle := None\<rparr>) reg calls =
        (Inl (UnavailabilityError ''Camera'' (command_name c)),
         this\<lparr>cameraNodeHandle := None\<rparr>, calls)"
    by (rule invoke_falsy)
next
  assume "get_property reg (command_name c) = Data d \<and> truthy d"
  then show "invoke c args (this\<lparr>cameraNodeHandle := None\<rparr>) reg calls =
        (Inl (TypeError (''ExpoCamera2ViewManager.'' @ command_name c @ '' is not a function'')),
         this\<lparr>cameraNodeHandle := None\<rparr>, calls)"
    using invoke_not_a_function [of reg c d] by blast
next
  assume "get_property reg (command_name c) = Callable f"
  from invoke_callable_handle [OF this, of args "this\<lparr>cameraNodeHandle := None\<rparr>" calls]
  show "\<exists>given. invoke c args (this\<lparr>cameraNodeHandle := None\<rparr>) reg calls =
         (f (given @ [JUndefined]), this\<lparr>cameraNodeHandle := None\<rparr>,
          calls @ [(command_name c, given @ [JUndefined])])"
    by simp
qed

theorem after_unmount_undefined_handle_witness:
  "cameraNodeHandle mounted_view = Some 7 \<and>
   setNativeReference sample_findNodeHandle None (Some mounted_view) =
     Inr (Some (mounted_view\<lparr>cameraNodeHandle := None\<rparr>)) \<and>
   \<not> truthy_entry (get_property sample_registry (command_name PausePreviewAsync)) \<and>
   invoke PausePreviewAsync [] (mounted_view\<lparr>cameraNodeHandle := None\<rparr>) sample_registry [] =
     (Inl (UnavailabilityError ''Camera'' ''pausePreviewAsync''),
      mounted_view\<lparr>cameraNodeHandle := None\<rparr>, []) \<and>
   get_property miswired_registry (command_name ResumePreviewAsync) = Data (JStr ''resume'') \<and>
   truthy (JStr ''resume'') \<and>
   invoke ResumePreviewAsync [] (mounted_view\<lparr>cameraNodeHandle := None\<rparr>) miswired_registry [] =
     (Inl (TypeError ''ExpoCamera2ViewManager.resumePreviewAsync is not a function''),
      mounted_view\<lparr>cameraNodeHandle := None\<rparr>, []) \<and>
   get_property sample_registry (command_name RecordAsync) = Callable native_echo \<and>
   invoke RecordAsync [] (mounted_view\<lparr>cameraNodeHandle := None\<rparr>) sample_registry [] =
     (Inr (PromiseFulfilled (JArr [JObj [], JUndefined])),
      mounted_view\<lparr>cameraNodeHandle := None\<rparr>,
      [(''recordAsync'', [JObj [], JUndefined])])"
proof -
  let ?v = "mounted_view\<lparr>cameraNodeHandle := None\<rparr>"
  have p: "\<not> truthy_entry (get_property sample_registry (command_name PausePreviewAsync))"
    and r: "get_property sample_registry (command_name RecordAsync) = Callable native_echo"
    by simp_all
  have q: "get_property miswired_registry (command_name ResumePreviewAsync) =
      Data (JStr ''resume'') \<and> truthy (JStr ''resume'')"
    by (simp add: get_property_def miswired_registry_def)
  have m: "cameraNodeHandle mounted_view = Some 7"
    by (simp add: mounted_view_def)
  from after_unmount_undefined_handle [where findNodeHandle = sample_findNodeHandle
      and this = mounted_view and reg = sample_registry and c = PausePreviewAsync
      and args = "[]" and calls = "[]"] p
  have a: "setNativeReference sample_findNodeHandle None (Some mounted_view) = Inr (Some ?v)"
    and b: "invoke PausePreviewAsync [] ?v sample_registry [] =
      (Inl (UnavailabilityError ''Camera'' ''pausePreviewAsync''), ?v, [])"
    by simp_all
  from after_unmount_undefined_handle [where findNodeHandle = sample_findNodeHandle
      and this = mounted_view and reg = miswired_registry and c = ResumePreviewAsync
      and d = "JStr ''resume''" and args = "[]" and calls = "[]"] q
  have t: "invoke ResumePreviewAsync [] ?v miswired_registry [] =
      (Inl (TypeError ''ExpoCamera2ViewManager.resumePreviewAsync is not a function''), ?v, [])"
    by simp
  from after_unmount_undefined_handle [where findNodeHandle = sample_findNodeHandle
      and this = mounted_view and reg = sample_registry and c = RecordAsync and f = native_echo
      and args = "[]" and calls = "[]"] r
  obtain given where g: "invoke RecordAsync [] ?v sample_registry [] =
      (native_echo (given @ [JUndefined]), ?v, [(''recordAsync'', given @ [JUndefined])])"
    by auto
  have "invoke RecordAsync [] ?v sample_registry [] =
      (native_echo [JObj [], JUndefined], ?v, [(''recordAsync'', [JObj [], JUndefined])])"
    using record_no_options [of sample_registry native_echo ?v "[]"] by simp
  with g have "given @ [JUndefined] = [JObj [], JUndefined]"
    by simp
  with g have c: "invoke RecordAsync [] ?v sample_registry [] =
      (Inr (PromiseFulfilled (JArr [JObj [], JUndefined])), ?v,
       [(''recordAsync'', [JObj [], JUndefined])])"
    by (simp add: native_echo_def)
  from m a p b q t r c show ?thesis by simp
qed

text \<open>
  C9. When \<open>setNativeReference\<close> gets a non-null ref for which \<open>findNodeHandle\<close>
  yields a falsy value, it returns with the instance unchanged, whether it runs on the
  instance or without receiver: the handle stored before stays, and commands called
  afterwards behave as they would have before.
\<close>

theorem failed_resolution_keeps_handle:
  assumes "\<not> truthy_handle (findNodeHandle r)"
  shows "setNativeReference findNodeHandle (Some r) (Some this) = Inr (Some this) \<and>
         setNativeReference findNodeHandle (Some r) None = Inr None \<and>
         instance_after (setNativeReference findNodeHandle (Some r) (Some this)) this = this \<and>
         instance_after (setNativeReference findNodeHandle (Some r) None) this = this \<and>
         cameraNodeHandle
             (instance_after (setNativeReference findNodeHandle (Some r) (Some this)) this) =
           cameraNodeHandle this \<and>
         invoke c args
             (instance_after (setNativeReference findNodeHandle (Some r) (Some this)) this)
             reg calls =
           invoke c args this reg calls"
  using assms falsy_resolution_keeps [of findNodeHandle r "Some this"]
    falsy_resolution_keeps [of findNodeHandle r None]
  by (simp add: instance_after_def)

theorem failed_resolution_keeps_handle_witness:
  "\<not> truthy_handle (sample_findNodeHandle ''detached'') \<and>
   setNativeReference sample_findNodeHandle (Some ''detached'') (Some mounted_view) =
     Inr (Some mounted_view) \<and>
   cameraNodeHandle
       (instance_after
          (setNativeReference sample_findNodeHandle (Some ''detached'') (Some mounted_view))
          mounted_view) = Some 7 \<and>
   invoke RecordAsync []
       (instance_after
          (setNativeReference sample_findNodeHandle (Some ''detached'') (Some mounted_view))
          mounted_view)
       sample_registry [] =
     (Inr (PromiseFulfilled (JArr [JObj [], JNum 7])), mounted_view,
      [(''recordAsync'', [JObj [], JNum 7])])"
proof -
  have h: "\<not> truthy_handle (sample_findNodeHandle ''detached'')"
    by (simp add: truthy_handle_def sample_findNodeHandle_def)
  have "invoke RecordAsync [] mounted_view sample_registry [] =
     (Inr (PromiseFulfilled (JArr [JObj [], JNum 7])), mounted_view,
      [(''recordAsync'', [JObj [], JNum 7])])"
    by (simp add: record_no_options native_echo_def mounted_view_def)
  with failed_resolution_keeps_handle [where findNodeHandle = sample_findNodeHandle
      and r = "''detached''" and this = mounted_view and c = RecordAsync and args = "[]"
      and reg = sample_registry and calls = "[]"] h
  show ?thesis by (simp add: mounted_view_def instance_after_def)
qed

text \<open>
  C7. No command changes the instance: after any of the eight commands every field,
  \<open>cameraNodeHandle\<close> included, is what it was. Of the things that can happen to an
  instance, a command and a render leave it unchanged, so only
  \<open>setNativeReference\<close> writes the handle.
\<close>

theorem commands_leave_component_unchanged:
  "fst (snd (invoke c args this reg calls)) = this \<and>
   fst (perform findNodeHandle reg (Command c args) (this, calls)) = this \<and>
   fst (perform findNodeHandle reg Render (this, calls)) = this"
proof -
  have "fst (snd (invoke c args this reg calls)) = this"
    by (rule invoke_keeps_this)
  then show ?thesis
    by (cases "invoke c args this reg calls") (simp add: perform_def render_def)
qed

section \<open>Default props\<close>

text \<open>
  C4. With every prop unset, the props in effect are autofocus off, facing back, flash
  mode off, focus depth 0.0, white balance auto and zoom 0.0: the values of
  \<open>defaultProps\<close>.
\<close>

theorem defaults_when_unset:
  "autofocus (resolveProps unsetProps) = Some Autofocus_Off \<and>
   facing (resolveProps unsetProps) = Some Facing_Back \<and>
   flashMode (resolveProps unsetProps) = Some FlashMode_Off \<and>
   focusDepth (resolveProps unsetProps) = Some 0.0 \<and>
   whiteBalance (resolveProps unsetProps) = Some WhiteBalance_Auto \<and>
   zoom (resolveProps unsetProps) = Some 0.0 \<and>
   resolveProps unsetProps = defaultProps"
  by (simp add: resolveProps_def unsetProps_def defaultProps_def or_default_def)

end
